theory Spec2Isabelle
  imports Complex_Main "HOL-Library.Word"
begin

section \<open>JavaScript strings\<close>

text \<open>
  A JavaScript string is a sequence of UTF-16 code units. String literals of the source
  are ASCII and are written \<open>js ''...''\<close>; concatenation (\<open>+\<close>, template literals)
  is list append; a string is truthy exactly when it is not empty.
\<close>

type_synonym jsstring = "16 word list"

definition js :: "string \<Rightarrow> jsstring" where
  "js s = map of_char s"

text \<open>
  \<open>String.prototype.trim\<close> removes the code units of the ECMAScript productions
  WhiteSpace and LineTerminator from both ends.
\<close>

definition isWhiteSpace :: "16 word \<Rightarrow> bool" where
  "isWhiteSpace c \<longleftrightarrow>
     c = 0x0009 \<or> c = 0x000A \<or> c = 0x000B \<or> c = 0x000C \<or> c = 0x000D \<or>
     c = 0x0020 \<or> c = 0x00A0 \<or> c = 0x1680 \<or> (0x2000 \<le> c \<and> c \<le> 0x200A) \<or>
     c = 0x2028 \<or> c = 0x2029 \<or> c = 0x202F \<or> c = 0x205F \<or> c = 0x3000 \<or>
     c = 0xFEFF"

definition trim :: "jsstring \<Rightarrow> jsstring" where
  "trim s = rev (dropWhile isWhiteSpace (rev (dropWhile isWhiteSpace s)))"

text \<open>The test \<open>!text.trim()\<close> of the source.\<close>

definition blank :: "jsstring \<Rightarrow> bool" where
  "blank s \<longleftrightarrow> trim s = []"

text \<open>
  \<open>encodeURIComponent\<close> throws a URIError when its argument holds a surrogate code
  unit that is not part of a pair (a low surrogate first, or a high surrogate not
  followed by a low one); on every other string it returns.
\<close>

definition isHighSurrogate :: "16 word \<Rightarrow> bool" where
  "isHighSurrogate c \<longleftrightarrow> 0xD800 \<le> c \<and> c \<le> 0xDBFF"

definition isLowSurrogate :: "16 word \<Rightarrow> bool" where
  "isLowSurrogate c \<longleftrightarrow> 0xDC00 \<le> c \<and> c \<le> 0xDFFF"

fun encodable :: "jsstring \<Rightarrow> bool" where
  "encodable [] = True"
| "encodable [c] = (\<not> isLowSurrogate c \<and> \<not> isHighSurrogate c)"
| "encodable (c # d # cs) =
     (if isLowSurrogate c then False
      else if isHighSurrogate c then isLowSurrogate d \<and> encodable cs
      else encodable (d # cs))"

section \<open>Language table\<close>

text \<open>
  The object \<open>speechLanguageCodes\<close>, and the lookup
  \<open>speechLanguageCodes[code] || fallback\<close> on the codes of the language menu. The two
  menus offer the 21 codes of the table and nothing else; the names an object inherits
  from \<open>Object.prototype\<close> (such as \<open>constructor\<close>), which the lookup of the source
  would find, are no codes and are left out.
\<close>

definition speechLanguageCodes :: "(jsstring \<times> jsstring) list" where
  "speechLanguageCodes =
     [(js ''en'', js ''en-US''), (js ''th'', js ''th-TH''), (js ''es'', js ''es-ES''),
      (js ''fr'', js ''fr-FR''), (js ''de'', js ''de-DE''), (js ''it'', js ''it-IT''),
      (js ''pt'', js ''pt-PT''), (js ''ru'', js ''ru-RU''), (js ''ja'', js ''ja-JP''),
      (js ''ko'', js ''ko-KR''), (js ''zh'', js ''zh-CN''), (js ''ar'', js ''ar-SA''),
      (js ''hi'', js ''hi-IN''), (js ''vi'', js ''vi-VN''), (js ''nl'', js ''nl-NL''),
      (js ''sv'', js ''sv-SE''), (js ''da'', js ''da-DK''), (js ''no'', js ''no-NO''),
      (js ''fi'', js ''fi-FI''), (js ''pl'', js ''pl-PL''), (js ''tr'', js ''tr-TR'')]"

definition speechLocale :: "jsstring \<Rightarrow> jsstring \<Rightarrow> jsstring" where
  "speechLocale code fallback =
     (case map_of speechLanguageCodes code of Some l \<Rightarrow> l | None \<Rightarrow> fallback)"

section \<open>View state\<close>

text \<open>
  The recognition object held by \<open>recognitionRef\<close> (\<open>None\<close> is \<open>null\<close>), and the
  state of the component \<open>App\<close>: its twelve \<open>useState\<close> cells and the ref.
\<close>

record recognition =
  continuous :: bool
  interimResults :: bool
  lang :: jsstring

record app_state =
  isRecording :: bool
  originalText :: jsstring
  translatedText :: jsstring
  agentReply :: jsstring
  agentReplyTranslated :: jsstring
  inputLanguage :: jsstring
  outputLanguage :: jsstring
  isTranslating :: bool
  isTranslatingReply :: bool
  error :: jsstring
  interimText :: jsstring
  isSpeaking :: bool
  recognitionRef :: "recognition option"

definition initialState :: app_state where
  "initialState =
     \<lparr>isRecording = False, originalText = [], translatedText = [], agentReply = [],
      agentReplyTranslated = [], inputLanguage = js ''th'', outputLanguage = js ''en'',
      isTranslating = False, isTranslatingReply = False, error = [], interimText = [],
      isSpeaking = False, recognitionRef = None\<rparr>"

section \<open>Recognition results\<close>

text \<open>
  One entry of \<open>event.results\<close>: \<open>transcript\<close> is \<open>results[i][0].transcript\<close>, the
  transcript of the first alternative (the platform delivers at least one alternative
  per result), \<open>isFinal\<close> is \<open>results[i].isFinal\<close>.
\<close>

record segment =
  transcript :: jsstring
  isFinal :: bool

record speech_event =
  results :: "segment list"
  resultIndex :: nat

text \<open>
  The \<open>for\<close> loop of the result listener, from index \<open>i\<close>, on the pair
  (\<open>finalTranscript\<close>, \<open>interimTranscript\<close>).
\<close>

function resultLoop :: "segment list \<Rightarrow> nat \<Rightarrow> jsstring \<times> jsstring \<Rightarrow> jsstring \<times> jsstring" where
  "resultLoop rs i (finalTranscript, interimTranscript) =
     (if i < length rs then
        (if isFinal (rs ! i)
         then resultLoop rs (i + 1) (finalTranscript @ transcript (rs ! i), interimTranscript)
         else resultLoop rs (i + 1) (finalTranscript, interimTranscript @ transcript (rs ! i)))
      else (finalTranscript, interimTranscript))"
  by pat_completeness auto
termination
  by (relation "measure (\<lambda>(rs, i, acc). length rs - i)") auto

declare resultLoop.simps [simp del]

definition onResult :: "speech_event \<Rightarrow> app_state \<Rightarrow> app_state" where
  "onResult event s =
     (let (finalTranscript, interimTranscript) =
            resultLoop (results event) (resultIndex event) ([], [])
      in if finalTranscript \<noteq> []
         then s\<lparr>originalText := originalText s @ finalTranscript, interimText := []\<rparr>
         else s\<lparr>interimText := interimTranscript\<rparr>)"

text \<open>
  The segments one event delivers (those from the resume index on), and the text of
  the final, respectively the non-final, ones in order.
\<close>

definition delivered :: "speech_event \<Rightarrow> segment list" where
  "delivered event = drop (resultIndex event) (results event)"

definition finalText :: "speech_event \<Rightarrow> jsstring" where
  "finalText event = concat (map transcript (filter isFinal (delivered event)))"

definition nonFinalText :: "speech_event \<Rightarrow> jsstring" where
  "nonFinalText event =
     concat (map transcript (filter (\<lambda>r. \<not> isFinal r) (delivered event)))"

text \<open>The \<open>error\<close> and \<open>end\<close> listeners of the recognition object.\<close>

definition onError :: "jsstring \<Rightarrow> app_state \<Rightarrow> app_state" where
  "onError code s = s\<lparr>error := js ''Speech recognition error: '' @ code, isRecording := False\<rparr>"

definition onEnd :: "app_state \<Rightarrow> app_state" where
  "onEnd s = s\<lparr>isRecording := False, interimText := []\<rparr>"

section \<open>Platform, requests and commands\<close>

text \<open>
  What the component finds in \<open>window\<close>: the tests \<open>'SpeechRecognition' in window\<close>,
  \<open>'webkitSpeechRecognition' in window\<close> and \<open>'speechSynthesis' in window\<close>.
\<close>

record platform =
  hasSpeechRecognition :: bool
  hasWebkitSpeechRecognition :: bool
  hasSpeechSynthesis :: bool

text \<open>
  A request to the translation service: \<open>q\<close> is the text handed to
  \<open>encodeURIComponent\<close> for the parameter \<open>q\<close> of the URL, \<open>langpair\<close> the value
  of its parameter \<open>langpair\<close>.
\<close>

record request =
  q :: jsstring
  langpair :: jsstring

text \<open>A \<open>SpeechSynthesisUtterance\<close>; the decimal \<open>0.9\<close> is the rational it denotes.\<close>

record utterance =
  utteranceText :: jsstring
  utteranceLang :: jsstring
  rate :: real
  pitch :: real

text \<open>What a handler asks of the platform, in the order it asks.\<close>

datatype effect =
    Fetch request
  | RecognitionStart
  | RecognitionStop
  | SynthesisCancel
  | SynthesisSpeak utterance

section \<open>Recording controls and clear\<close>

definition startRecording :: "app_state \<Rightarrow> app_state \<times> effect list" where
  "startRecording s =
     (if recognitionRef s \<noteq> None \<and> \<not> isRecording s
      then (s\<lparr>error := [], isRecording := True\<rparr>, [RecognitionStart])
      else (s, []))"

definition stopRecording :: "app_state \<Rightarrow> app_state \<times> effect list" where
  "stopRecording s =
     (if recognitionRef s \<noteq> None \<and> isRecording s then (s, [RecognitionStop]) else (s, []))"

text \<open>
  The attribute \<open>disabled={!recognitionRef.current}\<close> of the record button, as a render
  in state \<open>s\<close> computes it. Assigning the ref causes no render, so the button shows
  this value only from the next render on.
\<close>

definition recordButtonDisabled :: "app_state \<Rightarrow> bool" where
  "recordButtonDisabled s \<longleftrightarrow> recognitionRef s = None"

definition clearText :: "app_state \<Rightarrow> app_state" where
  "clearText s =
     s\<lparr>originalText := [], translatedText := [], agentReply := [],
       agentReplyTranslated := [], interimText := [], error := []\<rparr>"

section \<open>Translation\<close>

text \<open>
  How \<open>fetch\<close> settles: the promise is rejected, or fulfilled with a response whose
  \<open>ok\<close> is the given flag. How \<open>response.json()\<close> settles: rejected, or fulfilled
  with \<open>null\<close>, or with a value whose \<open>responseStatus\<close> is a number or something
  else, and whose \<open>responseData\<close> is absent (\<open>None\<close>: reading \<open>translatedText\<close> from
  it throws a TypeError) or carries the string \<open>translatedText\<close>.
\<close>

datatype fetch_outcome = FetchRejected | FetchFulfilled bool

datatype json_status = StatusNumber int | StatusOther

record payload =
  responseStatus :: json_status
  responseData :: "jsstring option"

datatype json_outcome = JsonRejected | JsonNull | JsonValue payload

text \<open>
  \<open>translateText\<close> is an async function with two suspension points. Its run is three
  synchronous pieces: \<open>translateText\<close> up to \<open>await fetch\<close>, \<open>translateText_fetched\<close>
  from there to \<open>await response.json()\<close>, \<open>translateText_parsed\<close> from there to the
  end. \<open>translateText_catch\<close> is the \<open>catch\<close> block followed by the \<open>finally\<close>
  block. The setters write fixed values, so each piece acts on the state it finds.
\<close>

definition translateText_catch :: "app_state \<Rightarrow> app_state" where
  "translateText_catch s =
     (s\<lparr>error := js ''Translation failed. Please try again.''\<rparr>)\<lparr>isTranslating := False\<rparr>"

definition translateText :: "app_state \<Rightarrow> app_state \<times> effect list" where
  "translateText s =
     (if blank (originalText s) then (s, [])
      else
        (let s1 = s\<lparr>isTranslating := True, error := []\<rparr>
         in if encodable (originalText s)
            then (s1, [Fetch \<lparr>q = originalText s,
                              langpair = inputLanguage s @ js ''|'' @ outputLanguage s\<rparr>])
            else (translateText_catch s1, [])))"

definition awaitsJson :: "fetch_outcome \<Rightarrow> bool" where
  "awaitsJson fo \<longleftrightarrow> (case fo of FetchRejected \<Rightarrow> False | FetchFulfilled ok \<Rightarrow> ok)"

definition translateText_fetched :: "fetch_outcome \<Rightarrow> app_state \<Rightarrow> app_state" where
  "translateText_fetched fo s =
     (case fo of
        FetchRejected \<Rightarrow> translateText_catch s
      | FetchFulfilled ok \<Rightarrow> if \<not> ok then translateText_catch s else s)"

definition translateText_parsed :: "json_outcome \<Rightarrow> app_state \<Rightarrow> app_state" where
  "translateText_parsed jo s =
     (case jo of
        JsonRejected \<Rightarrow> translateText_catch s
      | JsonNull \<Rightarrow> translateText_catch s
      | JsonValue data \<Rightarrow>
          if responseStatus data = StatusNumber 200
          then (case responseData data of
                  None \<Rightarrow> translateText_catch s
                | Some text \<Rightarrow> (s\<lparr>translatedText := text\<rparr>)\<lparr>isTranslating := False\<rparr>)
          else translateText_catch s)"

text \<open>
  One whole call: \<open>between1\<close> and \<open>between2\<close> are what other handlers do to the state
  while the call is suspended on \<open>fetch\<close> and on \<open>response.json()\<close>.
\<close>

definition translateText_call ::
  "(app_state \<Rightarrow> app_state) \<Rightarrow> (app_state \<Rightarrow> app_state) \<Rightarrow>
   fetch_outcome \<Rightarrow> json_outcome \<Rightarrow> app_state \<Rightarrow> app_state \<times> effect list" where
  "translateText_call between1 between2 fo jo s =
     (let (s1, out) = translateText s
      in if out = [] then (s1, [])
         else
           (let s2 = translateText_fetched fo (between1 s1)
            in if awaitsJson fo then (translateText_parsed jo (between2 s2), out)
               else (s2, out)))"

text \<open>The same for \<open>translateAgentReply\<close>.\<close>

definition translateAgentReply_catch :: "app_state \<Rightarrow> app_state" where
  "translateAgentReply_catch s =
     (s\<lparr>error := js ''Agent reply translation failed. Please try again.''\<rparr>)
       \<lparr>isTranslatingReply := False\<rparr>"

definition translateAgentReply :: "app_state \<Rightarrow> app_state \<times> effect list" where
  "translateAgentReply s =
     (if blank (agentReply s) then (s, [])
      else
        (let s1 = s\<lparr>isTranslatingReply := True, error := []\<rparr>
         in if encodable (agentReply s)
            then (s1, [Fetch \<lparr>q = agentReply s,
                              langpair = outputLanguage s @ js ''|'' @ inputLanguage s\<rparr>])
            else (translateAgentReply_catch s1, [])))"

definition translateAgentReply_fetched :: "fetch_outcome \<Rightarrow> app_state \<Rightarrow> app_state" where
  "translateAgentReply_fetched fo s =
     (case fo of
        FetchRejected \<Rightarrow> translateAgentReply_catch s
      | FetchFulfilled ok \<Rightarrow> if \<not> ok then translateAgentReply_catch s else s)"

definition translateAgentReply_parsed :: "json_outcome \<Rightarrow> app_state \<Rightarrow> app_state" where
  "translateAgentReply_parsed jo s =
     (case jo of
        JsonRejected \<Rightarrow> translateAgentReply_catch s
      | JsonNull \<Rightarrow> translateAgentReply_catch s
      | JsonValue data \<Rightarrow>
          if responseStatus data = StatusNumber 200
          then (case responseData data of
                  None \<Rightarrow> translateAgentReply_catch s
                | Some text \<Rightarrow>
                    (s\<lparr>agentReplyTranslated := text\<rparr>)\<lparr>isTranslatingReply := False\<rparr>)
          else translateAgentReply_catch s)"

definition translateAgentReply_call ::
  "(app_state \<Rightarrow> app_state) \<Rightarrow> (app_state \<Rightarrow> app_state) \<Rightarrow>
   fetch_outcome \<Rightarrow> json_outcome \<Rightarrow> app_state \<Rightarrow> app_state \<times> effect list" where
  "translateAgentReply_call between1 between2 fo jo s =
     (let (s1, out) = translateAgentReply s
      in if out = [] then (s1, [])
         else
           (let s2 = translateAgentReply_fetched fo (between1 s1)
            in if awaitsJson fo then (translateAgentReply_parsed jo (between2 s2), out)
               else (s2, out)))"

section \<open>Speech output\<close>

definition speakText :: "platform \<Rightarrow> jsstring \<Rightarrow> jsstring \<Rightarrow> app_state \<Rightarrow> app_state \<times> effect list" where
  "speakText p text language s =
     (if hasSpeechSynthesis p
      then (s, [SynthesisCancel,
                SynthesisSpeak \<lparr>utteranceText = text,
                                utteranceLang = speechLocale language (js ''en-US''),
                                rate = 9 / 10, pitch = 1\<rparr>])
      else (s\<lparr>error := js ''Text-to-speech is not supported in this browser.''\<rparr>, []))"

text \<open>The callbacks \<open>onstart\<close>, \<open>onend\<close> and \<open>onerror\<close> that \<open>speakText\<close> gives an utterance.\<close>

definition utterance_onstart :: "app_state \<Rightarrow> app_state" where
  "utterance_onstart s = s\<lparr>isSpeaking := True\<rparr>"

definition utterance_onend :: "app_state \<Rightarrow> app_state" where
  "utterance_onend s = s\<lparr>isSpeaking := False\<rparr>"

definition utterance_onerror :: "app_state \<Rightarrow> app_state" where
  "utterance_onerror s =
     s\<lparr>isSpeaking := False, error := js ''Text-to-speech failed. Please try again.''\<rparr>"

text \<open>
  The utterance queue of \<open>window.speechSynthesis\<close> after a handler's commands:
  \<open>cancel()\<close> removes every utterance from the queue, the one being spoken included,
  and \<open>speak(u)\<close> adds \<open>u\<close> at its end. The head of the queue is the utterance playing.
\<close>

fun synthesisQueue :: "effect list \<Rightarrow> utterance list \<Rightarrow> utterance list" where
  "synthesisQueue [] queue = queue"
| "synthesisQueue (SynthesisCancel # out) queue = synthesisQueue out []"
| "synthesisQueue (SynthesisSpeak u # out) queue = synthesisQueue out (queue @ [u])"
| "synthesisQueue (_ # out) queue = synthesisQueue out queue"

section \<open>Effects\<close>

text \<open>
  The four \<open>useEffect\<close> bodies, in the order of the source: the setup effect (with its
  cleanup), the effect that sets the recognition language, the watcher of the
  transcript and the watcher of the agent's reply. Where \<open>window\<close> has one of the two
  recognition constructors, \<open>new\<close> returns an object; the three listeners the setup
  effect adds to it are \<open>onResult\<close>, \<open>onError\<close> and \<open>onEnd\<close>.
\<close>

definition setupEffect :: "platform \<Rightarrow> app_state \<Rightarrow> app_state" where
  "setupEffect p s =
     (if hasSpeechRecognition p \<or> hasWebkitSpeechRecognition p
      then s\<lparr>recognitionRef :=
                Some \<lparr>continuous = True, interimResults = True,
                      lang = speechLocale (inputLanguage s) (js ''th-TH'')\<rparr>\<rparr>
      else s\<lparr>error := js ''Speech recognition is not supported in this browser.''\<rparr>)"

definition setupCleanup :: "app_state \<Rightarrow> app_state \<times> effect list" where
  "setupCleanup s = (if recognitionRef s \<noteq> None then (s, [RecognitionStop]) else (s, []))"

definition langEffect :: "app_state \<Rightarrow> app_state" where
  "langEffect s =
     (case recognitionRef s of
        None \<Rightarrow> s
      | Some r \<Rightarrow>
          s\<lparr>recognitionRef := Some (r\<lparr>lang := speechLocale (inputLanguage s) (js ''th-TH'')\<rparr>)\<rparr>)"

definition originalTextEffect :: "app_state \<Rightarrow> app_state \<times> effect list" where
  "originalTextEffect s = (if \<not> blank (originalText s) then translateText s else (s, []))"

definition agentReplyEffect :: "app_state \<Rightarrow> app_state \<times> effect list" where
  "agentReplyEffect s =
     (if \<not> blank (agentReply s) then translateAgentReply s
      else (s\<lparr>agentReplyTranslated := []\<rparr>, []))"

section \<open>The component as a transition system\<close>

text \<open>Running one handler after another, collecting their commands.\<close>

definition andThen ::
  "app_state \<times> effect list \<Rightarrow> (app_state \<Rightarrow> app_state \<times> effect list) \<Rightarrow> app_state \<times> effect list" where
  "andThen r f = (let (s', out') = f (fst r) in (s', snd r @ out'))"

definition silently :: "(app_state \<Rightarrow> app_state) \<Rightarrow> app_state \<Rightarrow> app_state \<times> effect list" where
  "silently f s = (f s, [])"

text \<open>The effects of the first render, from the initial values of the state cells.\<close>

definition mount :: "platform \<Rightarrow> app_state \<times> effect list" where
  "mount p =
     andThen (andThen (andThen (silently (setupEffect p) initialState) (silently langEffect))
                originalTextEffect)
       agentReplyEffect"

text \<open>
  After a handler has taken the state from \<open>old\<close> to \<open>new\<close>, the effects whose
  dependencies changed run again: cleanups first, then the bodies in source order.
\<close>

definition runEffects :: "platform \<Rightarrow> app_state \<Rightarrow> app_state \<Rightarrow> app_state \<times> effect list" where
  "runEffects p old new =
     (let langs = inputLanguage new \<noteq> inputLanguage old \<or> outputLanguage new \<noteq> outputLanguage old;
          r1 = (if inputLanguage new \<noteq> inputLanguage old
                then andThen (andThen (setupCleanup new) (silently (setupEffect p)))
                       (silently langEffect)
                else (new, []));
          r2 = (if originalText new \<noteq> originalText old \<or> langs
                then andThen r1 originalTextEffect else r1)
      in if agentReply new \<noteq> agentReply old \<or> langs then andThen r2 agentReplyEffect else r2)"

text \<open>
  What can happen to the mounted component: the user's actions, the events of the
  recognition object (its listeners exist only once the object does), the callbacks
  of an utterance, and the settling of the promises the two translate calls await.
\<close>

datatype event =
    StartRecording
  | StopRecording
  | ClearText
  | SetInputLanguage jsstring
  | SetOutputLanguage jsstring
  | SetAgentReply jsstring
  | SpeakText jsstring jsstring
  | RecognitionResult speech_event
  | RecognitionError jsstring
  | RecognitionEnd
  | UtteranceStart
  | UtteranceEnd
  | UtteranceError
  | TranslateFetched fetch_outcome
  | TranslateParsed json_outcome
  | ReplyFetched fetch_outcome
  | ReplyParsed json_outcome

fun handle :: "platform \<Rightarrow> event \<Rightarrow> app_state \<Rightarrow> app_state \<times> effect list" where
  "handle p StartRecording s = startRecording s"
| "handle p StopRecording s = stopRecording s"
| "handle p ClearText s = (clearText s, [])"
| "handle p (SetInputLanguage code) s = (s\<lparr>inputLanguage := code\<rparr>, [])"
| "handle p (SetOutputLanguage code) s = (s\<lparr>outputLanguage := code\<rparr>, [])"
| "handle p (SetAgentReply text) s = (s\<lparr>agentReply := text\<rparr>, [])"
| "handle p (SpeakText text language) s = speakText p text language s"
| "handle p (RecognitionResult e) s =
     (if recognitionRef s = None then (s, []) else (onResult e s, []))"
| "handle p (RecognitionError code) s =
     (if recognitionRef s = None then (s, []) else (onError code s, []))"
| "handle p RecognitionEnd s = (if recognitionRef s = None then (s, []) else (onEnd s, []))"
| "handle p UtteranceStart s = (utterance_onstart s, [])"
| "handle p UtteranceEnd s = (utterance_onend s, [])"
| "handle p UtteranceError s = (utterance_onerror s, [])"
| "handle p (TranslateFetched fo) s = (translateText_fetched fo s, [])"
| "handle p (TranslateParsed jo) s = (translateText_parsed jo s, [])"
| "handle p (ReplyFetched fo) s = (translateAgentReply_fetched fo s, [])"
| "handle p (ReplyParsed jo) s = (translateAgentReply_parsed jo s, [])"

definition dispatch :: "platform \<Rightarrow> event \<Rightarrow> app_state \<Rightarrow> app_state \<times> effect list" where
  "dispatch p e s = andThen (handle p e s) (runEffects p s)"

definition run :: "platform \<Rightarrow> event list \<Rightarrow> app_state \<Rightarrow> app_state" where
  "run p events s = foldl (\<lambda>st e. fst (dispatch p e st)) s events"

text \<open>
  The speaking flag as the three callbacks of an utterance alone would leave it after an
  event: the start callback sets it, the end and the error callback clear it, and no
  other event touches it. It is the yardstick the flag of the component is compared
  with, not a part of the component.
\<close>

fun flagByCallbacks :: "bool \<Rightarrow> event \<Rightarrow> bool" where
  "flagByCallbacks b UtteranceStart = True"
| "flagByCallbacks b UtteranceEnd = False"
| "flagByCallbacks b UtteranceError = False"
| "flagByCallbacks b _ = b"

section \<open>Example inputs\<close>

text \<open>The Thai greeting of six code units, and states in which it has been heard or answered.\<close>

definition sawasdee :: jsstring where
  "sawasdee = [0x0E2A, 0x0E27, 0x0E31, 0x0E2A, 0x0E14, 0x0E35]"

definition heardState :: app_state where
  "heardState = initialState\<lparr>originalText := sawasdee, translatedText := js ''Good morning''\<rparr>"

definition repliedState :: app_state where
  "repliedState = initialState\<lparr>agentReply := js ''Hello'', agentReplyTranslated := sawasdee\<rparr>"

definition busyState :: app_state where
  "busyState =
     \<lparr>isRecording = True, originalText = sawasdee, translatedText = js ''Hello'',
      agentReply = js ''Hi'', agentReplyTranslated = sawasdee, inputLanguage = js ''th'',
      outputLanguage = js ''en'', isTranslating = True, isTranslatingReply = True,
      error = js ''Translation failed. Please try again.'', interimText = js ''kha'',
      isSpeaking = True,
      recognitionRef = Some \<lparr>continuous = True, interimResults = True, lang = js ''th-TH''\<rparr>\<rparr>"

text \<open>
  Two result events: one whose only final segment from the resume index on has an
  empty transcript and is followed by a non-final segment; one that resumes at index 1
  with a final and a non-final segment.
\<close>

definition emptyFinalBatch :: speech_event where
  "emptyFinalBatch =
     \<lparr>results = [\<lparr>transcript = [], isFinal = True\<rparr>,
                 \<lparr>transcript = js ''hel'', isFinal = False\<rparr>],
      resultIndex = 0\<rparr>"

definition finalBatch :: speech_event where
  "finalBatch =
     \<lparr>results = [\<lparr>transcript = js ''old '', isFinal = True\<rparr>,
                 \<lparr>transcript = js ''hello'', isFinal = True\<rparr>,
                 \<lparr>transcript = js ''wor'', isFinal = False\<rparr>],
      resultIndex = 1\<rparr>"

text \<open>A browser without speech recognition, and one with every capability.\<close>

definition noRecognition :: platform where
  "noRecognition =
     \<lparr>hasSpeechRecognition = False, hasWebkitSpeechRecognition = False,
      hasSpeechSynthesis = True\<rparr>"

definition fullPlatform :: platform where
  "fullPlatform =
     \<lparr>hasSpeechRecognition = True, hasWebkitSpeechRecognition = True,
      hasSpeechSynthesis = True\<rparr>"

section \<open>Blank texts\<close>

lemma blank_iff: "blank s \<longleftrightarrow> (\<forall>c\<in>set s. isWhiteSpace c)"
proof
  assume "blank s"
  then have "\<forall>c\<in>set (dropWhile isWhiteSpace s). isWhiteSpace c"
    by (simp add: blank_def trim_def dropWhile_eq_Nil_conv)
  then have "dropWhile isWhiteSpace s = []"
    by (metis hd_dropWhile list.set_sel(1))
  then show "\<forall>c\<in>set s. isWhiteSpace c"
    by (simp add: dropWhile_eq_Nil_conv)
next
  assume "\<forall>c\<in>set s. isWhiteSpace c"
  then have "dropWhile isWhiteSpace s = []"
    by (simp add: dropWhile_eq_Nil_conv)
  then show "blank s"
    by (simp only: blank_def trim_def rev.simps dropWhile.simps)
qed

section \<open>Properties of the result listener\<close>

lemma resultLoop_drop:
  "resultLoop rs i (f, n) =
     (f @ concat (map transcript (filter isFinal (drop i rs))),
      n @ concat (map transcript (filter (\<lambda>r. \<not> isFinal r) (drop i rs))))"
proof (induction rs i "(f, n)" arbitrary: f n rule: resultLoop.induct)
  case (1 rs i f n)
  show ?case
  proof (cases "i < length rs")
    case False
    then show ?thesis by (simp add: resultLoop.simps [of rs i])
  next
    case True
    then have d: "drop i rs = rs ! i # drop (Suc i) rs"
      by (simp add: Cons_nth_drop_Suc)
    show ?thesis
    proof (cases "isFinal (rs ! i)")
      case True
      with \<open>i < length rs\<close> "1.hyps"(1) d show ?thesis
        by (simp add: resultLoop.simps [of rs i])
    next
      case False
      with \<open>i < length rs\<close> "1.hyps"(2) d show ?thesis
        by (simp add: resultLoop.simps [of rs i])
    qed
  qed
qed

lemma resultLoop_event:
  "resultLoop (results event) (resultIndex event) ([], []) = (finalText event, nonFinalText event)"
  by (simp add: resultLoop_drop finalText_def nonFinalText_def delivered_def)

lemma originalText_onResult:
  "originalText (onResult event s) = originalText s @ finalText event"
  by (simp add: onResult_def resultLoop_event)

lemma interimText_onResult:
  "interimText (onResult event s) = (if finalText event \<noteq> [] then [] else nonFinalText event)"
  by (simp add: onResult_def resultLoop_event)

text \<open>
  C1. Whatever result events the listener receives, in whatever number, the finalized
  transcript afterwards is the transcript before, followed by the transcripts of the
  final segments of the first event, then those of the second, and so on: nothing is
  removed from it or moved inside it.
\<close>

theorem C1_finalized_is_concatenation:
  "originalText (foldl (\<lambda>st event. onResult event st) s events) =
     originalText s @ concat (map finalText events)"
proof (induction events arbitrary: s)
  case Nil
  show ?case by simp
next
  case (Cons event events)
  show ?case by (simp add: Cons.IH originalText_onResult)
qed

theorem C1_finalized_is_concatenation_witness:
  "originalText (foldl (\<lambda>st event. onResult event st) heardState
      [finalBatch, emptyFinalBatch, finalBatch]) = sawasdee @ js ''hellohello''"
  using C1_finalized_is_concatenation [of heardState "[finalBatch, emptyFinalBatch, finalBatch]"]
  by (simp add: finalText_def delivered_def finalBatch_def emptyFinalBatch_def heardState_def
      initialState_def js_def)

text \<open>
  C2, as stated, fails. The event \<open>emptyFinalBatch\<close> delivers a final segment (its
  first), and after the listener has processed it the interim text is not empty but
  \<open>hel\<close>: the final segment's transcript is the empty string, so the listener takes
  the branch that stores the non-final text.
\<close>

theorem C2_counterexample:
  "isFinal (delivered emptyFinalBatch ! 0) \<and>
   interimText (onResult emptyFinalBatch initialState) \<noteq> []"
  by (simp add: interimText_onResult finalText_def nonFinalText_def delivered_def
      emptyFinalBatch_def js_def)

text \<open>
  C2, amended. For every result event whose final segments from the resume index on
  carry some text (their transcripts, concatenated, are not the empty string), the
  interim text is the empty string once the listener has processed the event.
\<close>

theorem C2_interim_cleared_by_final_text:
  "finalText event \<noteq> [] \<Longrightarrow> interimText (onResult event s) = []"
  by (simp add: interimText_onResult)

theorem C2_interim_cleared_by_final_text_witness:
  "finalText finalBatch \<noteq> [] \<and> interimText (onResult finalBatch busyState) = []"
proof -
  have h: "finalText finalBatch \<noteq> []"
    by (simp add: finalText_def delivered_def finalBatch_def js_def)
  from C2_interim_cleared_by_final_text [OF h, of busyState] h show ?thesis by simp
qed

section \<open>Properties of the translate calls\<close>

lemma isTranslating_catch: "isTranslating (translateText_catch s) = False"
  by (simp add: translateText_catch_def)

lemma translateText_fetched_failed:
  "\<not> awaitsJson fo \<Longrightarrow> translateText_fetched fo s = translateText_catch s"
  by (cases fo) (simp_all add: translateText_fetched_def awaitsJson_def)

lemma translateText_fetched_ok: "awaitsJson fo \<Longrightarrow> translateText_fetched fo s = s"
  by (cases fo) (simp_all add: translateText_fetched_def awaitsJson_def)

lemma isTranslating_parsed: "isTranslating (translateText_parsed jo s) = False"
  by (cases jo) (simp_all add: translateText_parsed_def isTranslating_catch split: option.splits)

lemma isTranslatingReply_catch: "isTranslatingReply (translateAgentReply_catch s) = False"
  by (simp add: translateAgentReply_catch_def)

lemma translateAgentReply_fetched_failed:
  "\<not> awaitsJson fo \<Longrightarrow> translateAgentReply_fetched fo s = translateAgentReply_catch s"
  by (cases fo) (simp_all add: translateAgentReply_fetched_def awaitsJson_def)

lemma isTranslatingReply_parsed: "isTranslatingReply (translateAgentReply_parsed jo s) = False"
  by (cases jo)
    (simp_all add: translateAgentReply_parsed_def isTranslatingReply_catch split: option.splits)

lemma sawasdee_not_blank: "\<not> blank sawasdee"
  by (simp add: blank_def trim_def sawasdee_def isWhiteSpace_def)

lemma sawasdee_encodable: "encodable sawasdee"
  by (simp add: sawasdee_def isLowSurrogate_def isHighSurrogate_def)

lemma hello_not_blank: "\<not> blank (js ''Hello'')"
  by (simp add: blank_def trim_def js_def isWhiteSpace_def)

lemma hello_encodable: "encodable (js ''Hello'')"
  by (simp add: js_def isLowSurrogate_def isHighSurrogate_def)

text \<open>
  C3. When the source text consists of white space only (the empty text included), a
  call of \<open>translateText\<close>, and likewise a call of \<open>translateAgentReply\<close>, sends no
  request and returns the state it was given: no busy flag and no other cell changes,
  whatever the environment would have answered.
\<close>

theorem C3_blank_text_is_noop:
  assumes "\<forall>c\<in>set text. isWhiteSpace c"
  shows "translateText_call between1 between2 fo jo (s\<lparr>originalText := text\<rparr>) =
           (s\<lparr>originalText := text\<rparr>, []) \<and>
         translateAgentReply_call between1 between2 fo jo (s\<lparr>agentReply := text\<rparr>) =
           (s\<lparr>agentReply := text\<rparr>, [])"
  using assms
  by (simp add: translateText_call_def translateText_def translateAgentReply_call_def
      translateAgentReply_def blank_iff)

theorem C3_blank_text_is_noop_witness:
  "list_all isWhiteSpace (js ''   '') \<and>
   translateText_call id id (FetchFulfilled True) JsonNull (busyState\<lparr>originalText := js ''   ''\<rparr>) =
     (busyState\<lparr>originalText := js ''   ''\<rparr>, []) \<and>
   translateAgentReply_call id id (FetchFulfilled True) JsonNull (busyState\<lparr>agentReply := js ''   ''\<rparr>) =
     (busyState\<lparr>agentReply := js ''   ''\<rparr>, [])"
proof -
  have h: "\<forall>c\<in>set (js ''   ''). isWhiteSpace c"
    by (simp add: js_def isWhiteSpace_def)
  from C3_blank_text_is_noop [OF h, of id id "FetchFulfilled True" JsonNull busyState] h
  show ?thesis by (simp add: list_all_iff)
qed

text \<open>
  C4. A call of \<open>translateText\<close> on a text that is not blank leaves \<open>isTranslating\<close>
  false when it completes, and a call of \<open>translateAgentReply\<close> on a reply that is not
  blank leaves \<open>isTranslatingReply\<close> false: however \<open>fetch\<close> and \<open>response.json()\<close>
  settle, whether or not \<open>encodeURIComponent\<close> throws, and whatever other handlers do
  to the state while the call is suspended.
\<close>

theorem C4_busy_flag_cleared:
  "(\<not> blank (originalText s) \<longrightarrow>
      isTranslating (fst (translateText_call between1 between2 fo jo s)) = False) \<and>
   (\<not> blank (agentReply s) \<longrightarrow>
      isTranslatingReply (fst (translateAgentReply_call between1 between2 fo jo s)) = False)"
  by (simp add: translateText_call_def translateText_def translateAgentReply_call_def
      translateAgentReply_def Let_def translateText_fetched_failed isTranslating_catch
      isTranslating_parsed translateAgentReply_fetched_failed isTranslatingReply_catch
      isTranslatingReply_parsed)

theorem C4_busy_flag_cleared_witness:
  "\<not> blank (originalText busyState) \<and> \<not> blank (agentReply busyState) \<and>
   isTranslating (fst (translateText_call id id FetchRejected JsonRejected busyState)) = False \<and>
   isTranslatingReply
     (fst (translateAgentReply_call id id (FetchFulfilled True) JsonNull busyState)) = False"
proof -
  have h1: "\<not> blank (originalText busyState)"
    by (simp add: busyState_def sawasdee_not_blank)
  have h2: "\<not> blank (agentReply busyState)"
    by (simp add: busyState_def blank_def trim_def js_def isWhiteSpace_def)
  from C4_busy_flag_cleared [of busyState id id FetchRejected JsonRejected]
    C4_busy_flag_cleared [of busyState id id "FetchFulfilled True" JsonNull] h1 h2
  show ?thesis by simp
qed

text \<open>
  C5. Take a call of \<open>translateText\<close> on a text that is not blank, with nothing else
  happening while it is suspended. If the call fails because \<open>fetch\<close> is rejected, or
  the response is not \<open>ok\<close>, or the payload's \<open>responseStatus\<close> is not the number 200,
  then afterwards the diagnostic is \<open>Translation failed. Please try again.\<close> and the
  translated text is what it was before the call. If the text can be encoded and the
  service answers with status 200 and a translated text, then the one request sent
  carries the text and the pair \<open>inputLanguage|outputLanguage\<close> (\<open>th|en\<close> for Thai to
  English), and the translated text is the service's.
\<close>

theorem C5_forward_translation_outcomes:
  assumes "\<not> blank (originalText s)"
  shows
    "(fo = FetchRejected \<or> fo = FetchFulfilled False \<or>
      (jo = JsonValue d \<and> responseStatus d \<noteq> StatusNumber 200) \<longrightarrow>
        error (fst (translateText_call id id fo jo s)) =
          js ''Translation failed. Please try again.'' \<and>
        translatedText (fst (translateText_call id id fo jo s)) = translatedText s) \<and>
     (encodable (originalText s) \<longrightarrow>
        snd (translateText_call id id (FetchFulfilled True)
               (JsonValue \<lparr>responseStatus = StatusNumber 200, responseData = Some t\<rparr>) s) =
          [Fetch \<lparr>q = originalText s,
                  langpair = inputLanguage s @ js ''|'' @ outputLanguage s\<rparr>] \<and>
        translatedText (fst (translateText_call id id (FetchFulfilled True)
               (JsonValue \<lparr>responseStatus = StatusNumber 200, responseData = Some t\<rparr>) s)) = t)"
proof (intro conjI impI)
  assume f: "fo = FetchRejected \<or> fo = FetchFulfilled False \<or>
      (jo = JsonValue d \<and> responseStatus d \<noteq> StatusNumber 200)"
  have "fst (translateText_call id id fo jo s) =
          translateText_catch (s\<lparr>isTranslating := True, error := []\<rparr>)"
  proof (cases "encodable (originalText s)")
    case False
    with assms show ?thesis
      by (simp add: translateText_call_def translateText_def)
  next
    case True
    show ?thesis
    proof (cases "awaitsJson fo")
      case False
      with assms True show ?thesis
        by (simp add: translateText_call_def translateText_def translateText_fetched_failed)
    next
      case aw: True
      with f have "jo = JsonValue d" "responseStatus d \<noteq> StatusNumber 200"
        by (auto simp: awaitsJson_def)
      with assms True aw show ?thesis
        by (simp add: translateText_call_def translateText_def translateText_fetched_ok
            translateText_parsed_def)
    qed
  qed
  then show "error (fst (translateText_call id id fo jo s)) =
      js ''Translation failed. Please try again.''"
    and "translatedText (fst (translateText_call id id fo jo s)) = translatedText s"
    by (simp_all add: translateText_catch_def)
next
  assume "encodable (originalText s)"
  with assms show "snd (translateText_call id id (FetchFulfilled True)
               (JsonValue \<lparr>responseStatus = StatusNumber 200, responseData = Some t\<rparr>) s) =
          [Fetch \<lparr>q = originalText s,
                  langpair = inputLanguage s @ js ''|'' @ outputLanguage s\<rparr>]"
    by (simp add: translateText_call_def translateText_def awaitsJson_def)
next
  assume "encodable (originalText s)"
  with assms show "translatedText (fst (translateText_call id id (FetchFulfilled True)
               (JsonValue \<lparr>responseStatus = StatusNumber 200, responseData = Some t\<rparr>) s)) = t"
    by (simp add: translateText_call_def translateText_def awaitsJson_def
        translateText_fetched_def translateText_parsed_def)
qed

theorem C5_forward_translation_outcomes_witness:
  "\<not> blank (originalText heardState) \<and> encodable (originalText heardState) \<and>
   error (fst (translateText_call id id FetchRejected JsonRejected heardState)) =
     js ''Translation failed. Please try again.'' \<and>
   translatedText (fst (translateText_call id id FetchRejected JsonRejected heardState)) =
     js ''Good morning'' \<and>
   snd (translateText_call id id (FetchFulfilled True)
          (JsonValue \<lparr>responseStatus = StatusNumber 200, responseData = Some (js ''Hello'')\<rparr>)
          heardState) =
     [Fetch \<lparr>q = sawasdee, langpair = js ''th|en''\<rparr>] \<and>
   translatedText (fst (translateText_call id id (FetchFulfilled True)
          (JsonValue \<lparr>responseStatus = StatusNumber 200, responseData = Some (js ''Hello'')\<rparr>)
          heardState)) = js ''Hello''"
proof -
  have h1: "\<not> blank (originalText heardState)"
    by (simp add: heardState_def sawasdee_not_blank)
  have h2: "encodable (originalText heardState)"
    by (simp add: heardState_def sawasdee_encodable)
  have l: "inputLanguage heardState @ js ''|'' @ outputLanguage heardState = js ''th|en''"
    by (simp add: heardState_def initialState_def js_def)
  have o: "originalText heardState = sawasdee" "translatedText heardState = js ''Good morning''"
    by (simp_all add: heardState_def)
  from C5_forward_translation_outcomes
         [OF h1, of FetchRejected JsonRejected
            "\<lparr>responseStatus = StatusOther, responseData = None\<rparr>" "js ''Hello''"] h1 h2
  show ?thesis by (simp add: l o)
qed

section \<open>Properties of the effects and of the transition system\<close>

lemma fst_andThen: "fst (andThen r f) = fst (f (fst r))"
  by (simp add: andThen_def split: prod.splits)

lemma recognitionRef_translateText: "recognitionRef (fst (translateText s)) = recognitionRef s"
  by (simp add: translateText_def translateText_catch_def Let_def)

lemma recognitionRef_translateAgentReply:
  "recognitionRef (fst (translateAgentReply s)) = recognitionRef s"
  by (simp add: translateAgentReply_def translateAgentReply_catch_def Let_def)

lemma recognitionRef_originalTextEffect:
  "recognitionRef (fst (originalTextEffect s)) = recognitionRef s"
  by (simp add: originalTextEffect_def recognitionRef_translateText)

lemma recognitionRef_agentReplyEffect:
  "recognitionRef (fst (agentReplyEffect s)) = recognitionRef s"
  by (simp add: agentReplyEffect_def recognitionRef_translateAgentReply)

lemma recognitionRef_continuations:
  "recognitionRef (translateText_fetched fo s) = recognitionRef s"
  "recognitionRef (translateText_parsed jo s) = recognitionRef s"
  "recognitionRef (translateAgentReply_fetched fo s) = recognitionRef s"
  "recognitionRef (translateAgentReply_parsed jo s) = recognitionRef s"
  by (simp_all add: translateText_fetched_def translateText_parsed_def translateText_catch_def
      translateAgentReply_fetched_def translateAgentReply_parsed_def
      translateAgentReply_catch_def
      split: fetch_outcome.splits json_outcome.splits option.splits)

lemma recognitionRef_onResult: "recognitionRef (onResult e s) = recognitionRef s"
  by (simp add: onResult_def split: prod.splits)

text \<open>No handler assigns the ref.\<close>

lemma recognitionRef_handle: "recognitionRef (fst (handle p e s)) = recognitionRef s"
  by (cases e)
    (simp_all add: startRecording_def stopRecording_def clearText_def speakText_def
      recognitionRef_onResult onError_def onEnd_def utterance_onstart_def utterance_onend_def
      utterance_onerror_def recognitionRef_continuations)

text \<open>Without the capability, no effect assigns it either.\<close>

lemma recognitionRef_unsupported_effects:
  assumes "\<not> hasSpeechRecognition p" and "\<not> hasWebkitSpeechRecognition p"
    and "recognitionRef s = None"
  shows "recognitionRef (fst (setupCleanup s)) = None"
    and "recognitionRef (setupEffect p s) = None"
    and "recognitionRef (langEffect s) = None"
  using assms by (simp_all add: setupCleanup_def setupEffect_def langEffect_def)

lemma recognitionRef_runEffects:
  assumes "\<not> hasSpeechRecognition p" and "\<not> hasWebkitSpeechRecognition p"
    and "recognitionRef new = None"
  shows "recognitionRef (fst (runEffects p old new)) = None"
  using assms
  by (simp add: runEffects_def Let_def fst_andThen silently_def
      recognitionRef_originalTextEffect recognitionRef_agentReplyEffect
      recognitionRef_unsupported_effects)

lemma recognitionRef_dispatch:
  assumes "\<not> hasSpeechRecognition p" and "\<not> hasWebkitSpeechRecognition p"
    and "recognitionRef s = None"
  shows "recognitionRef (fst (dispatch p e s)) = None"
  using assms
  by (simp add: dispatch_def fst_andThen recognitionRef_runEffects recognitionRef_handle)

lemma recognitionRef_run:
  assumes "\<not> hasSpeechRecognition p" and "\<not> hasWebkitSpeechRecognition p"
  shows "recognitionRef s = None \<Longrightarrow> recognitionRef (run p events s) = None"
  unfolding run_def
proof (induction events arbitrary: s)
  case Nil
  then show ?case by simp
next
  case (Cons e events)
  from Cons.prems have "recognitionRef (fst (dispatch p e s)) = None"
    by (rule recognitionRef_dispatch [OF assms])
  then show ?case by (simp add: Cons.IH)
qed

lemma mount_unsupported:
  assumes "\<not> hasSpeechRecognition p" and "\<not> hasWebkitSpeechRecognition p"
  shows "mount p =
    (initialState\<lparr>error := js ''Speech recognition is not supported in this browser.''\<rparr>, [])"
  using assms
  by (simp add: mount_def andThen_def silently_def setupEffect_def langEffect_def
      originalTextEffect_def agentReplyEffect_def initialState_def blank_def trim_def)

text \<open>
  C6. When the agent's reply is set to a text of white space only (the empty text
  included), the watcher of the reply, run for that change, empties the translated
  reply and sends no request: the handler and the effect together change nothing but
  the reply and its translation, and ask nothing of the platform.
\<close>

theorem C6_blank_reply_clears_slot:
  assumes "\<forall>c\<in>set text. isWhiteSpace c"
  shows "agentReplyEffect (s\<lparr>agentReply := text\<rparr>) =
           (s\<lparr>agentReply := text, agentReplyTranslated := []\<rparr>, []) \<and>
         (agentReply s \<noteq> text \<longrightarrow>
            dispatch p (SetAgentReply text) s =
              (s\<lparr>agentReply := text, agentReplyTranslated := []\<rparr>, []))"
  using assms
  by (simp add: agentReplyEffect_def dispatch_def runEffects_def andThen_def blank_iff)

theorem C6_blank_reply_clears_slot_witness:
  "list_all isWhiteSpace (js '' '') \<and> agentReply repliedState \<noteq> js '' '' \<and>
   agentReplyTranslated repliedState = sawasdee \<and>
   dispatch fullPlatform (SetAgentReply (js '' '')) repliedState =
     (repliedState\<lparr>agentReply := js '' '', agentReplyTranslated := []\<rparr>, [])"
proof -
  have h1: "\<forall>c\<in>set (js '' ''). isWhiteSpace c"
    by (simp add: js_def isWhiteSpace_def)
  have h2: "agentReply repliedState \<noteq> js '' ''"
    by (simp add: repliedState_def js_def)
  from C6_blank_reply_clears_slot [OF h1, of repliedState fullPlatform] h1 h2
  show ?thesis by (simp add: repliedState_def list_all_iff)
qed

text \<open>
  C7, as stated, fails. While an utterance plays (\<open>isSpeaking\<close> is true), a call of
  \<open>speakText\<close> for the text \<open>T2\<close> on a browser with speech synthesis returns with
  \<open>isSpeaking\<close> still true: \<open>speakText\<close> never writes the flag.
\<close>

theorem C7_counterexample:
  "hasSpeechSynthesis fullPlatform \<and> isSpeaking busyState \<and>
   isSpeaking (fst (speakText fullPlatform (js ''T2'') (js ''en'') busyState)) \<noteq> False"
  by (simp add: speakText_def busyState_def fullPlatform_def)

text \<open>Outside the three callbacks of an utterance, nothing writes the speaking flag.\<close>

lemma isSpeaking_translateText: "isSpeaking (fst (translateText s)) = isSpeaking s"
  by (simp add: translateText_def translateText_catch_def Let_def)

lemma isSpeaking_translateAgentReply: "isSpeaking (fst (translateAgentReply s)) = isSpeaking s"
  by (simp add: translateAgentReply_def translateAgentReply_catch_def Let_def)

lemma isSpeaking_effects:
  "isSpeaking (fst (originalTextEffect s)) = isSpeaking s"
  "isSpeaking (fst (agentReplyEffect s)) = isSpeaking s"
  "isSpeaking (fst (setupCleanup s)) = isSpeaking s"
  "isSpeaking (setupEffect p s) = isSpeaking s"
  "isSpeaking (langEffect s) = isSpeaking s"
  by (simp_all add: originalTextEffect_def agentReplyEffect_def setupCleanup_def
      setupEffect_def langEffect_def isSpeaking_translateText isSpeaking_translateAgentReply
      split: option.splits)

lemma isSpeaking_continuations:
  "isSpeaking (translateText_fetched fo s) = isSpeaking s"
  "isSpeaking (translateText_parsed jo s) = isSpeaking s"
  "isSpeaking (translateAgentReply_fetched fo s) = isSpeaking s"
  "isSpeaking (translateAgentReply_parsed jo s) = isSpeaking s"
  by (simp_all add: translateText_fetched_def translateText_parsed_def translateText_catch_def
      translateAgentReply_fetched_def translateAgentReply_parsed_def
      translateAgentReply_catch_def
      split: fetch_outcome.splits json_outcome.splits option.splits)

lemma isSpeaking_onResult: "isSpeaking (onResult e s) = isSpeaking s"
  by (simp add: onResult_def split: prod.splits)

lemma isSpeaking_runEffects: "isSpeaking (fst (runEffects p old new)) = isSpeaking new"
  by (simp add: runEffects_def Let_def fst_andThen silently_def isSpeaking_effects)

lemma isSpeaking_handle: "isSpeaking (fst (handle p e s)) = flagByCallbacks (isSpeaking s) e"
  by (cases e)
    (simp_all add: startRecording_def stopRecording_def clearText_def speakText_def
      isSpeaking_onResult onError_def onEnd_def utterance_onstart_def utterance_onend_def
      utterance_onerror_def isSpeaking_continuations)

lemma isSpeaking_dispatch:
  "isSpeaking (fst (dispatch p e s)) = flagByCallbacks (isSpeaking s) e"
  by (simp add: dispatch_def fst_andThen isSpeaking_runEffects isSpeaking_handle)

lemma isSpeaking_run:
  "isSpeaking (run p events s) = foldl flagByCallbacks (isSpeaking s) events"
  unfolding run_def
proof (induction events arbitrary: s)
  case Nil
  show ?case by simp
next
  case (Cons e events)
  show ?case by (simp add: Cons.IH isSpeaking_dispatch)
qed

text \<open>
  C7, amended. On a browser with speech synthesis, every call of \<open>speakText\<close> first
  cancels what the synthesis queue holds and then starts the new utterance (rate 0.9,
  pitch 1, the locale of the language), and changes no state itself. The speaking flag
  is written only by the callbacks of an utterance: the start callback sets it, the end
  callback and the error callback clear it, and after any events whatever, handlers and
  effects included, the flag is what these callbacks alone make of it. So after two
  calls in a row, for \<open>t1\<close> then \<open>t2\<close>, the queue holds the utterance for \<open>t2\<close>
  alone, whatever it held before; and whatever happens after the two calls (callbacks
  of the interrupted utterance, the start of the new one, other handlers), the
  speaking flag is false once the end callback has run.
\<close>

theorem C7_speak_cancels_then_starts:
  assumes "hasSpeechSynthesis p"
  shows "speakText p text language s =
           (s, [SynthesisCancel,
                SynthesisSpeak \<lparr>utteranceText = text,
                                utteranceLang = speechLocale language (js ''en-US''),
                                rate = 9 / 10, pitch = 1\<rparr>]) \<and>
         isSpeaking (utterance_onstart s) = True \<and>
         isSpeaking (utterance_onend s) = False \<and>
         isSpeaking (utterance_onerror s) = False \<and>
         isSpeaking (run p events s) = foldl flagByCallbacks (isSpeaking s) events \<and>
         synthesisQueue (snd (speakText p t2 l2 (fst (speakText p t1 l1 s))))
             (synthesisQueue (snd (speakText p t1 l1 s)) queue) =
           [\<lparr>utteranceText = t2, utteranceLang = speechLocale l2 (js ''en-US''),
             rate = 9 / 10, pitch = 1\<rparr>] \<and>
         isSpeaking
           (run p (SpeakText t1 l1 # SpeakText t2 l2 # events @ [UtteranceEnd]) s) = False"
  using assms
  by (simp add: speakText_def utterance_onstart_def utterance_onend_def utterance_onerror_def
      isSpeaking_run)

theorem C7_speak_cancels_then_starts_witness:
  "hasSpeechSynthesis fullPlatform \<and>
   speakText fullPlatform (js ''T2'') (js ''th'') busyState =
     (busyState, [SynthesisCancel,
                  SynthesisSpeak \<lparr>utteranceText = js ''T2'', utteranceLang = js ''th-TH'',
                                  rate = 9 / 10, pitch = 1\<rparr>]) \<and>
   isSpeaking
     (run fullPlatform [UtteranceStart, SpeakText (js ''T2'') (js ''th'')] initialState) = True \<and>
   synthesisQueue
       (snd (speakText fullPlatform (js ''T2'') (js ''th'')
               (fst (speakText fullPlatform (js ''T1'') (js ''en'') busyState))))
       (synthesisQueue (snd (speakText fullPlatform (js ''T1'') (js ''en'') busyState)) []) =
     [\<lparr>utteranceText = js ''T2'', utteranceLang = js ''th-TH'', rate = 9 / 10, pitch = 1\<rparr>] \<and>
   isSpeaking (run fullPlatform
       (SpeakText (js ''T1'') (js ''en'') # SpeakText (js ''T2'') (js ''th'') #
        [UtteranceError, UtteranceStart] @ [UtteranceEnd]) busyState) = False"
proof -
  have h: "hasSpeechSynthesis fullPlatform"
    by (simp add: fullPlatform_def)
  have l: "speechLocale (js ''th'') (js ''en-US'') = js ''th-TH''"
    by (simp add: speechLocale_def speechLanguageCodes_def js_def)
  from C7_speak_cancels_then_starts
         [OF h, of "js ''T2''" "js ''th''" busyState "[UtteranceError, UtteranceStart]"
            "js ''T2''" "js ''th''" "js ''T1''" "js ''en''" "[]"]
       C7_speak_cancels_then_starts
         [OF h, of "js ''T2''" "js ''th''" initialState
            "[UtteranceStart, SpeakText (js ''T2'') (js ''th'')]"]
       h
  show ?thesis by (simp add: l initialState_def)
qed

text \<open>
  C8. For every reply that is not blank, a call of \<open>translateAgentReply\<close> sends no
  request other than the one for the reply text with the pair
  \<open>outputLanguage|inputLanguage\<close>, the forward pair swapped (\<open>en|th\<close> for input
  \<open>th\<close> and output \<open>en\<close>); when the reply can be encoded it sends exactly that
  request, and when the service then answers with status 200 and a translated text,
  the translated reply is that text.
\<close>

theorem C8_reply_translation_swaps_pair:
  assumes "\<not> blank (agentReply s)"
  shows
    "set (snd (translateAgentReply_call between1 between2 fo jo s)) \<subseteq>
       {Fetch \<lparr>q = agentReply s, langpair = outputLanguage s @ js ''|'' @ inputLanguage s\<rparr>} \<and>
     (encodable (agentReply s) \<longrightarrow>
        snd (translateAgentReply_call between1 between2 fo jo s) =
          [Fetch \<lparr>q = agentReply s,
                  langpair = outputLanguage s @ js ''|'' @ inputLanguage s\<rparr>] \<and>
        agentReplyTranslated
          (fst (translateAgentReply_call between1 between2 (FetchFulfilled True)
             (JsonValue \<lparr>responseStatus = StatusNumber 200, responseData = Some t\<rparr>) s)) = t)"
  using assms
  by (simp add: translateAgentReply_call_def translateAgentReply_def Let_def awaitsJson_def
      translateAgentReply_fetched_def translateAgentReply_parsed_def)

theorem C8_reply_translation_swaps_pair_witness:
  "\<not> blank (agentReply repliedState) \<and> encodable (agentReply repliedState) \<and>
   snd (translateAgentReply_call id id (FetchFulfilled True)
          (JsonValue \<lparr>responseStatus = StatusNumber 200, responseData = Some sawasdee\<rparr>)
          repliedState) =
     [Fetch \<lparr>q = js ''Hello'', langpair = js ''en|th''\<rparr>] \<and>
   agentReplyTranslated
     (fst (translateAgentReply_call id id (FetchFulfilled True)
        (JsonValue \<lparr>responseStatus = StatusNumber 200, responseData = Some sawasdee\<rparr>)
        repliedState)) = sawasdee"
proof -
  have h1: "\<not> blank (agentReply repliedState)"
    by (simp add: repliedState_def hello_not_blank)
  have h2: "encodable (agentReply repliedState)"
    by (simp add: repliedState_def hello_encodable)
  have l: "outputLanguage repliedState @ js ''|'' @ inputLanguage repliedState = js ''en|th''"
    by (simp add: repliedState_def initialState_def js_def)
  have r: "agentReply repliedState = js ''Hello''"
    by (simp add: repliedState_def)
  from C8_reply_translation_swaps_pair
         [OF h1, of id id "FetchFulfilled True"
            "JsonValue \<lparr>responseStatus = StatusNumber 200, responseData = Some sawasdee\<rparr>"
            sawasdee] h1 h2
  show ?thesis by (simp add: l r)
qed

text \<open>
  C9. On a browser with neither \<open>SpeechRecognition\<close> nor \<open>webkitSpeechRecognition\<close>,
  mounting the component sets the diagnostic to
  \<open>Speech recognition is not supported in this browser.\<close> and returns normally; and
  after any events whatever, the record button is disabled and \<open>startRecording\<close>
  changes no state and asks nothing of the platform.
\<close>

theorem C9_unsupported_recognition:
  assumes "\<not> hasSpeechRecognition p" and "\<not> hasWebkitSpeechRecognition p"
  shows "error (fst (mount p)) = js ''Speech recognition is not supported in this browser.'' \<and>
         (\<forall>events.
            recordButtonDisabled (run p events (fst (mount p))) \<and>
            startRecording (run p events (fst (mount p))) = (run p events (fst (mount p)), []))"
proof -
  have m: "recognitionRef (fst (mount p)) = None"
    by (simp add: mount_unsupported [OF assms] initialState_def)
  have "recognitionRef (run p events (fst (mount p))) = None" for events
    by (rule recognitionRef_run [OF assms m])
  then show ?thesis
    by (simp add: mount_unsupported [OF assms] recordButtonDisabled_def startRecording_def)
qed

theorem C9_unsupported_recognition_witness:
  "\<not> hasSpeechRecognition noRecognition \<and> \<not> hasWebkitSpeechRecognition noRecognition \<and>
   error (fst (mount noRecognition)) =
     js ''Speech recognition is not supported in this browser.'' \<and>
   recordButtonDisabled
     (run noRecognition [StartRecording, SetInputLanguage (js ''en''), StartRecording]
        (fst (mount noRecognition))) \<and>
   startRecording
     (run noRecognition [StartRecording, SetInputLanguage (js ''en''), StartRecording]
        (fst (mount noRecognition))) =
     (run noRecognition [StartRecording, SetInputLanguage (js ''en''), StartRecording]
        (fst (mount noRecognition)), [])"
proof -
  have h1: "\<not> hasSpeechRecognition noRecognition"
    and h2: "\<not> hasWebkitSpeechRecognition noRecognition"
    by (simp_all add: noRecognition_def)
  from C9_unsupported_recognition [OF h1 h2] h1 h2
  show ?thesis by simp
qed

text \<open>
  C10. \<open>clearText\<close> sets the six text cells (transcript, translated text, agent reply,
  translated reply, interim text, diagnostic) to the empty string and leaves the
  recording status, both busy flags, the speaking flag, both language selections and
  the recognition object as they were; the effects that run after it change nothing
  more and ask nothing of the platform.
\<close>

theorem C10_clear_frame:
  "originalText (clearText s) = [] \<and> translatedText (clearText s) = [] \<and>
   agentReply (clearText s) = [] \<and> agentReplyTranslated (clearText s) = [] \<and>
   interimText (clearText s) = [] \<and> error (clearText s) = [] \<and>
   isRecording (clearText s) = isRecording s \<and>
   isTranslating (clearText s) = isTranslating s \<and>
   isTranslatingReply (clearText s) = isTranslatingReply s \<and>
   isSpeaking (clearText s) = isSpeaking s \<and>
   inputLanguage (clearText s) = inputLanguage s \<and>
   outputLanguage (clearText s) = outputLanguage s \<and>
   recognitionRef (clearText s) = recognitionRef s \<and>
   dispatch p ClearText s = (clearText s, [])"
  by (simp add: clearText_def dispatch_def runEffects_def andThen_def originalTextEffect_def
      agentReplyEffect_def blank_def trim_def Let_def)

theorem C10_clear_frame_witness:
  "clearText busyState =
     \<lparr>isRecording = True, originalText = [], translatedText = [], agentReply = [],
      agentReplyTranslated = [], inputLanguage = js ''th'', outputLanguage = js ''en'',
      isTranslating = True, isTranslatingReply = True, error = [], interimText = [],
      isSpeaking = True,
      recognitionRef = Some \<lparr>continuous = True, interimResults = True, lang = js ''th-TH''\<rparr>\<rparr> \<and>
   dispatch fullPlatform ClearText busyState = (clearText busyState, [])"
  using C10_clear_frame [of busyState fullPlatform]
  by (simp add: busyState_def clearText_def)

end
